theory Spec2Isabelle
  imports Main "HOL-Library.AList" "HOL-Library.Multiset"
begin

section \<open>JavaScript values and Firestore documents\<close>

text \<open>
  The values the handlers see: what \<^verbatim>\<open>JSON.parse\<close> delivers, \<^verbatim>\<open>undefined\<close> for a field the
  envelope does not carry, and the timestamp a Firestore document holds once
  \<^verbatim>\<open>FieldValue.serverTimestamp()\<close> has been resolved by the store. A number is kept as an
  integer: the handlers only test a number for truthiness and for identity.
\<close>

datatype jsval =
    JUndefined
  | JNull
  | JBool bool
  | JNum int
  | JStr string
  | JTimestamp nat
  | JArr "jsval list"
  | JObj "(string \<times> jsval) list"

type_synonym doc = "(string \<times> jsval) list"

text \<open>Truthiness, as \<^verbatim>\<open>if (x)\<close>, \<^verbatim>\<open>!x\<close>, \<^verbatim>\<open>x && y\<close> and \<^verbatim>\<open>x || y\<close> read it.\<close>

fun truthy :: "jsval \<Rightarrow> bool" where
  "truthy JUndefined = False"
| "truthy JNull = False"
| "truthy (JBool b) = b"
| "truthy (JNum n) = (n \<noteq> 0)"
| "truthy (JStr s) = (s \<noteq> [])"
| "truthy (JTimestamp t) = True"
| "truthy (JArr xs) = True"
| "truthy (JObj kvs) = True"

text \<open>
  \<^verbatim>\<open>a === b\<close> between a value read from a stored document and a value of the parsed
  envelope: primitives compare by value, objects by reference, and the two sides never
  share a reference.
\<close>

fun strict_eq :: "jsval \<Rightarrow> jsval \<Rightarrow> bool" where
  "strict_eq JUndefined b = (b = JUndefined)"
| "strict_eq JNull b = (b = JNull)"
| "strict_eq (JBool x) b = (b = JBool x)"
| "strict_eq (JNum x) b = (b = JNum x)"
| "strict_eq (JStr x) b = (b = JStr x)"
| "strict_eq (JTimestamp t) b = False"
| "strict_eq (JArr xs) b = False"
| "strict_eq (JObj kvs) b = False"

text \<open>\<^verbatim>\<open>x || y\<close> on values.\<close>

definition js_or :: "jsval \<Rightarrow> jsval \<Rightarrow> jsval" where
  "js_or a b = (if truthy a then a else b)"

text \<open>\<^verbatim>\<open>d.k\<close> on the object \<^verbatim>\<open>data()\<close> returns: a missing property reads as \<^verbatim>\<open>undefined\<close>.\<close>

definition field :: "doc \<Rightarrow> string \<Rightarrow> jsval" where
  "field d k = (case map_of d k of None \<Rightarrow> JUndefined | Some v \<Rightarrow> v)"

text \<open>
  What \<^verbatim>\<open>set(...)\<close> stores under \<^verbatim>\<open>db.settings({ ignoreUndefinedProperties: true })\<close>:
  the properties whose value is \<^verbatim>\<open>undefined\<close> are left out.
\<close>

definition stored :: "doc \<Rightarrow> doc" where
  "stored kvs = filter (\<lambda>kv. snd kv \<noteq> JUndefined) kvs"

section \<open>Exceptions, effects and the state of the server\<close>

datatype exn =
    InvalidDocumentPath
  | NestedDocumentPath
  | TypeError
  | ReferenceError
  | BcryptError
  | MediaStoreError
  | AuthError

text \<open>How a block of a handler ends: it falls through, it returns from the handler, or it throws.\<close>

datatype completion = Normal | Return | Throw exn

text \<open>What goes out on sockets: to the socket of this connection, or to every open client.\<close>

datatype effect = ToSender doc | ToAll doc

text \<open>The lines the code writes to the console, one constructor for each place that writes.\<close>

datatype logline =
    LogChecking string
  | LogDeletedMedia string jsval
  | LogFailedToDelete jsval exn
  | LogMessageDeleted
  | LogMessageDeleteFailed exn
  | LogDeleteFailed exn
  | LogAuthUserDeleted
  | LogAuthUserGone
  | LogProfileDeleted
  | LogFoundRooms nat
  | LogMediaDone
  | LogRoomDeleted string
  | LogTotalDeleteFailed exn
  | LogErrorHandlingMessage exn

text \<open>
  The state one event changes: the Firestore collections \<^verbatim>\<open>rooms\<close> and \<^verbatim>\<open>users\<close> (document id
  and data), the \<^verbatim>\<open>messages\<close> sub-collection of each room id, the calls
  \<^verbatim>\<open>cloudinary.uploader.destroy\<close> has received (identifier and resource type), what has been
  sent on sockets, and the console. A document id is one path segment.
\<close>

record server =
  rooms :: "(string \<times> doc) list"
  messages :: "string \<Rightarrow> (string \<times> doc) list"
  users :: "(string \<times> doc) list"
  destroyed :: "(jsval \<times> string) list"
  sent :: "effect list"
  console :: "logline list"

datatype auth_result = AuthDeleted | AuthUserNotFound | AuthFailed

text \<open>
  What the event gets from outside the process: the clock (\<^verbatim>\<open>Date.now()\<close>), the time the
  store gives a server timestamp, bcrypt on strings, whether the media store rejects a
  destroy call, and what the identity service answers to \<^verbatim>\<open>deleteUser\<close>.
\<close>

record env =
  date_now :: nat
  server_time :: nat
  hash_of :: "string \<Rightarrow> string"
  hash_matches :: "string \<Rightarrow> string \<Rightarrow> bool"
  destroy_fails :: "jsval \<Rightarrow> string \<Rightarrow> bool"
  auth_delete :: "jsval \<Rightarrow> auth_result"

text \<open>The fields the handler destructures from the parsed envelope.\<close>

record event =
  action :: jsval
  roomName :: jsval
  username :: jsval
  msg_text :: jsval
  replyTo :: jsval
  password :: jsval
  uid :: jsval
  public_id :: jsval
  msg_type :: jsval
  msgId :: jsval

definition ws_send :: "doc \<Rightarrow> server \<Rightarrow> server" where
  "ws_send m s = s\<lparr>sent := sent s @ [ToSender m]\<rparr>"

definition broadcast :: "doc \<Rightarrow> server \<Rightarrow> server" where
  "broadcast m s = s\<lparr>sent := sent s @ [ToAll m]\<rparr>"

definition console_log :: "logline \<Rightarrow> server \<Rightarrow> server" where
  "console_log l s = s\<lparr>console := console s @ [l]\<rparr>"

section \<open>The collaborators, as the handlers call them\<close>

text \<open>
  Firestore's \<^verbatim>\<open>collection.doc(path)\<close> (the client library's). It throws unless the path
  is a non-empty string without \<^verbatim>\<open>//\<close>; it splits the path at the slashes and drops the
  empty segments (a leading and a trailing slash are allowed); it throws when the number
  of segments is even, since the path then names no document. One segment is a
  document id of the collection.
\<close>

fun split_path :: "string \<Rightarrow> string list" where
  "split_path [] = [[]]"
| "split_path (c # cs) =
     (if c = CHR ''/'' then [] # split_path cs
      else (case split_path cs of x # xs \<Rightarrow> (c # x) # xs | [] \<Rightarrow> [[c]]))"

definition segments :: "string \<Rightarrow> string list" where
  "segments n = filter (\<lambda>x. x \<noteq> []) (split_path n)"

fun double_slash :: "string \<Rightarrow> bool" where
  "double_slash (a # b # cs) = ((a = CHR ''/'' \<and> b = CHR ''/'') \<or> double_slash (b # cs))"
| "double_slash cs = False"

text \<open>
  Three segments or more name a document of a nested collection. The state below holds
  the documents of \<^verbatim>\<open>rooms\<close>, of \<^verbatim>\<open>users\<close> and of the \<^verbatim>\<open>messages\<close> of each room only, so
  what the handlers do with such a path is not followed: the event ends there with
  \<open>NestedDocumentPath\<close>, which is a mark of this model and no error of the client. Every
  lemma below that speaks of a path the client refuses names \<open>InvalidDocumentPath\<close>.
\<close>

definition doc_id :: "jsval \<Rightarrow> exn + string" where
  "doc_id v =
     (case v of
        JStr n \<Rightarrow>
          if n = [] \<or> double_slash n then Inl InvalidDocumentPath
          else
            (case segments n of
               [x] \<Rightarrow> Inr x
             | xs \<Rightarrow> if even (length xs) then Inl InvalidDocumentPath
                      else Inl NestedDocumentPath)
      | _ \<Rightarrow> Inl InvalidDocumentPath)"

text \<open>
  Modelled from the spec: \<^verbatim>\<open>bcrypt.hash\<close> and \<^verbatim>\<open>bcrypt.compare\<close> are not under src/. Both
  reject when the data (or the hash) is absent or not a string; on strings the
  environment decides.
\<close>

definition bcrypt_hash :: "env \<Rightarrow> jsval \<Rightarrow> exn + jsval" where
  "bcrypt_hash env p = (case p of JStr x \<Rightarrow> Inr (JStr (hash_of env x)) | _ \<Rightarrow> Inl BcryptError)"

definition bcrypt_compare :: "env \<Rightarrow> jsval \<Rightarrow> jsval \<Rightarrow> exn + bool" where
  "bcrypt_compare env p h =
     (case p of
        JStr x \<Rightarrow> (case h of JStr y \<Rightarrow> Inr (hash_matches env x y) | _ \<Rightarrow> Inl BcryptError)
      | _ \<Rightarrow> Inl BcryptError)"

text \<open>
  \<^verbatim>\<open>cloudinary.uploader.destroy(public_id, { resource_type })\<close>: the call is recorded, and
  it either resolves or rejects with an error object.
\<close>

definition destroy :: "env \<Rightarrow> jsval \<Rightarrow> string \<Rightarrow> server \<Rightarrow> exn option \<times> server" where
  "destroy env pid rt s =
     (if destroy_fails env pid rt then Some MediaStoreError else None,
      s\<lparr>destroyed := destroyed s @ [(pid, rt)]\<rparr>)"

text \<open>
  A value inside a template literal, \<^verbatim>\<open>`... ${v}`\<close>, is converted to a string. The
  conversion throws a TypeError for an object that has a property \<^verbatim>\<open>toString\<close> of its own:
  a stored value is data, so the property is not callable, and \<^verbatim>\<open>valueOf\<close> gives back the
  object. An array is joined, which converts its elements (\<^verbatim>\<open>null\<close> to the empty string).
  Every other value converts.
\<close>

fun interpolate :: "jsval \<Rightarrow> exn option" where
  "interpolate (JObj kvs) = (if map_of kvs ''toString'' = None then None else Some TypeError)"
| "interpolate (JArr xs) = (if list_ex (\<lambda>x. interpolate x \<noteq> None) xs then Some TypeError else None)"
| "interpolate v = None"

text \<open>\<^verbatim>\<open>msg.data().type === "audio" ? "video" : "image"\<close>\<close>

definition resourceType :: "doc \<Rightarrow> string" where
  "resourceType m = (if strict_eq (field m ''type'') (JStr ''audio'') then ''video'' else ''image'')"

section \<open>utils/mediaDelete.js\<close>

text \<open>
  The \<^verbatim>\<open>catch\<close> of the loop calls
  \<^verbatim>\<open>console.error(`... Failed to delete ${msg.data().public_id}`, err.message)\<close>: when the
  identifier does not convert to a string, the TypeError leaves the handler, the loop
  and the function.
\<close>

fun deleteMediaByMessages :: "env \<Rightarrow> (string \<times> doc) list \<Rightarrow> server \<Rightarrow> exn option \<times> server" where
  "deleteMediaByMessages env [] s = (None, s)"
| "deleteMediaByMessages env (msg # rest) s =
     (let s1 = console_log (LogChecking (fst msg)) s in
      if \<not> truthy (field (snd msg) ''public_id'') then deleteMediaByMessages env rest s1
      else
        (case destroy env (field (snd msg) ''public_id'') (resourceType (snd msg)) s1 of
           (None, s2) \<Rightarrow>
             deleteMediaByMessages env rest
               (console_log (LogDeletedMedia (resourceType (snd msg)) (field (snd msg) ''public_id'')) s2)
         | (Some err, s2) \<Rightarrow>
             (case interpolate (field (snd msg) ''public_id'') of
                Some x \<Rightarrow> (Some x, s2)
              | None \<Rightarrow>
                  deleteMediaByMessages env rest
                    (console_log (LogFailedToDelete (field (snd msg) ''public_id'') err) s2))))"

section \<open>The WebSocket message handler\<close>

text \<open>
  \<^verbatim>\<open>sendRoomList\<close>: the room list as the collection holds it at the call, to every open
  client. The function is async and is never awaited, so its send comes after the sends
  the handler makes on the same tick.
\<close>

definition room_entry :: "string \<times> doc \<Rightarrow> jsval" where
  "room_entry r =
     JObj [(''name'', JStr (fst r)),
           (''private'', JBool (truthy (field (snd r) ''password''))),
           (''createdBy'', field (snd r) ''createdBy'')]"

definition sendRoomList :: "server \<Rightarrow> server" where
  "sendRoomList s =
     broadcast [(''type'', JStr ''rooms-updated''), (''rooms'', JArr (map room_entry (rooms s)))] s"

definition create_exists_error :: doc where
  "create_exists_error =
     [(''type'', JStr ''error''), (''create'', JBool True), (''message'', JStr ''Room already exist !'')]"

text \<open>
  The create block. The stored password is
  \<^verbatim>\<open>password && await bcrypt.hash(password, saltRounds) || null\<close>: the hash is asked for
  only when the password is truthy, and a falsy result becomes \<^verbatim>\<open>null\<close>.
\<close>

definition create_room :: "env \<Rightarrow> event \<Rightarrow> server \<Rightarrow> completion \<times> server" where
  "create_room env e s =
     (if \<not> truthy (roomName e) \<and> \<not> truthy (uid e) then (Return, s)
      else
        (case doc_id (roomName e) of
           Inl x \<Rightarrow> (Throw x, s)
         | Inr r \<Rightarrow>
             (case map_of (rooms s) r of
                None \<Rightarrow>
                  (case (if truthy (password e) then bcrypt_hash env (password e)
                         else Inr (password e)) of
                     Inl x \<Rightarrow> (Throw x, s)
                   | Inr h \<Rightarrow>
                       (let s1 = s\<lparr>rooms :=
                                  AList.update r
                                    (stored [(''password'', js_or h JNull),
                                             (''createdBy'', uid e),
                                             (''createdAt'', JTimestamp (server_time env))])
                                    (rooms s)\<rparr>;
                            s2 = ws_send [(''type'', JStr ''create-success''),
                                          (''roomName'', roomName e)] s1
                        in (Return, sendRoomList s2)))
              | Some d \<Rightarrow> (Return, ws_send create_exists_error s))))"

text \<open>\<^verbatim>\<open>orderBy('timestamp')\<close>: the documents that have the field, in ascending order of it.\<close>

fun ts_key :: "jsval \<Rightarrow> nat" where
  "ts_key (JTimestamp t) = t"
| "ts_key v = 0"

definition orderBy_timestamp :: "(string \<times> doc) list \<Rightarrow> doc list" where
  "orderBy_timestamp ms =
     sort_key (\<lambda>d. ts_key (field d ''timestamp''))
       (filter (\<lambda>d. field d ''timestamp'' \<noteq> JUndefined) (map snd ms))"

definition join_missing_error :: doc where
  "join_missing_error =
     [(''type'', JStr ''error''), (''join'', JBool True), (''message'', JStr ''Room doesn't exist.'')]"

definition join_password_error :: doc where
  "join_password_error =
     [(''type'', JStr ''error''), (''join'', JBool True), (''message'', JStr ''Incorrect password.'')]"

text \<open>The join block.\<close>

definition join_room :: "env \<Rightarrow> event \<Rightarrow> server \<Rightarrow> completion \<times> server" where
  "join_room env e s =
     (case doc_id (roomName e) of
        Inl x \<Rightarrow> (Throw x, s)
      | Inr r \<Rightarrow>
          (case map_of (rooms s) r of
             None \<Rightarrow> (Return, ws_send join_missing_error s)
           | Some d \<Rightarrow>
               (case (if truthy (field d ''password'')
                      then bcrypt_compare env (password e) (field d ''password'')
                      else Inr True) of
                  Inl x \<Rightarrow> (Throw x, s)
                | Inr matched \<Rightarrow>
                    if \<not> matched then (Return, ws_send join_password_error s)
                    else
                      (Return,
                       ws_send [(''type'', JStr ''join-success''),
                                (''roomName'', roomName e),
                                (''messages'', JArr (map JObj (orderBy_timestamp (messages s r))))]
                         s))))"

text \<open>\<^verbatim>\<open>Date.now().toString()\<close>: the decimal digits of the clock.\<close>

definition digit :: "nat \<Rightarrow> char" where
  "digit n = ''0123456789'' ! n"

function toString :: "nat \<Rightarrow> string" where
  "toString n = (if n < 10 then [digit n] else toString (n div 10) @ [digit (n mod 10)])"
  by pat_completeness auto
termination
  by (relation "measure (\<lambda>n. n)") auto

declare toString.simps [simp del]

text \<open>
  The object \<^verbatim>\<open>newMsg\<close> as the store keeps it (the literal names \<^verbatim>\<open>roomName\<close> twice, which
  is one property).
\<close>

definition newMsg :: "env \<Rightarrow> event \<Rightarrow> doc" where
  "newMsg env e =
     stored [(''id'', JStr (toString (date_now env))),
             (''userId'', uid e),
             (''username'', username e),
             (''text'', msg_text e),
             (''replyTo'', replyTo e),
             (''type'', js_or (msg_type e) JNull),
             (''public_id'', js_or (public_id e) JNull),
             (''roomName'', roomName e),
             (''timestamp'', JTimestamp (server_time env))]"

text \<open>The message block: the message is stored under its id, read back and sent to all.\<close>

definition send_message :: "env \<Rightarrow> event \<Rightarrow> server \<Rightarrow> completion \<times> server" where
  "send_message env e s =
     (case doc_id (roomName e) of
        Inl x \<Rightarrow> (Throw x, s)
      | Inr r \<Rightarrow>
          (case map_of (rooms s) r of
             None \<Rightarrow> (Return, s)
           | Some d \<Rightarrow>
               (let s1 = s\<lparr>messages :=
                           (messages s)
                             (r := AList.update (toString (date_now env)) (newMsg env e) (messages s r))\<rparr>
                in (Return,
                    broadcast [(''type'', JStr ''message''), (''message'', JObj (newMsg env e))] s1))))"

text \<open>
  The delete-message block, a \<^verbatim>\<open>try\<close> of its own: \<^verbatim>\<open>message.data()\<close> is \<^verbatim>\<open>undefined\<close> for a
  message that does not exist, and reading \<^verbatim>\<open>userId\<close> of it throws into the handler of the
  block. So does the \<^verbatim>\<open>catch\<close> around the destroy call, whose \<^verbatim>\<open>console.error\<close> has the
  identifier in a template literal: the message is then neither deleted nor answered.
\<close>

definition delete_message :: "env \<Rightarrow> event \<Rightarrow> server \<Rightarrow> completion \<times> server" where
  "delete_message env e s =
     (case doc_id (roomName e) of
        Inl x \<Rightarrow> (Normal, console_log (LogMessageDeleteFailed x) s)
      | Inr r \<Rightarrow>
          (case doc_id (msgId e) of
             Inl x \<Rightarrow> (Normal, console_log (LogMessageDeleteFailed x) s)
           | Inr i \<Rightarrow>
               (case map_of (messages s r) i of
                  None \<Rightarrow> (Normal, console_log (LogMessageDeleteFailed TypeError) s)
                | Some m \<Rightarrow>
                    if strict_eq (field m ''userId'') (uid e) then
                      (case (if truthy (field m ''public_id'') then
                               (case destroy env (field m ''public_id'') (resourceType m) s of
                                  (None, s') \<Rightarrow>
                                    (None,
                                     console_log
                                       (LogDeletedMedia (resourceType m) (field m ''public_id'')) s')
                                | (Some err, s') \<Rightarrow>
                                    (case interpolate (field m ''public_id'') of
                                       Some x \<Rightarrow> (Some x, s')
                                     | None \<Rightarrow>
                                         (None,
                                          console_log
                                            (LogFailedToDelete (field m ''public_id'') err) s')))
                             else (None, s)) of
                         (Some x, s1) \<Rightarrow> (Normal, console_log (LogMessageDeleteFailed x) s1)
                       | (None, s1) \<Rightarrow>
                           (let s2 = s1\<lparr>messages :=
                                       (messages s1)(r := AList.delete i (messages s1 r))\<rparr>;
                                s3 = console_log LogMessageDeleted s2
                            in (Normal,
                                ws_send [(''type'', JStr ''message-deleted''), (''id'', msgId e)] s3)))
                    else (Normal, s))))"

definition permission_error :: doc where
  "permission_error =
     [(''type'', JStr ''error''), (''message'', JStr ''Only the creator can delete this room.'')]"

text \<open>
  The delete-room block, a \<^verbatim>\<open>try\<close> of its own. The batch deletes every message of the
  snapshot, which is every message of the room.
\<close>

definition delete_room :: "env \<Rightarrow> event \<Rightarrow> server \<Rightarrow> completion \<times> server" where
  "delete_room env e s =
     (case doc_id (roomName e) of
        Inl x \<Rightarrow> (Normal, console_log (LogDeleteFailed x) s)
      | Inr r \<Rightarrow>
          (case map_of (rooms s) r of
             None \<Rightarrow> (Return, s)
           | Some d \<Rightarrow>
               if \<not> strict_eq (field d ''owner'') (uid e) then (Return, ws_send permission_error s)
               else
                 (case deleteMediaByMessages env (messages s r) s of
                    (Some x, s1) \<Rightarrow> (Normal, console_log (LogDeleteFailed x) s1)
                  | (None, s1) \<Rightarrow>
                      (let s2 = s1\<lparr>messages := (messages s1)(r := [])\<rparr>;
                           s3 = s2\<lparr>rooms := AList.delete r (rooms s2)\<rparr>
                       in (Normal, sendRoomList s3)))))"

text \<open>\<^verbatim>\<open>admin.firestore().recursiveDelete(roomRef)\<close>: the room document and its messages.\<close>

definition recursiveDelete :: "string \<Rightarrow> server \<Rightarrow> server" where
  "recursiveDelete r s = s\<lparr>rooms := AList.delete r (rooms s), messages := (messages s)(r := [])\<rparr>"

text \<open>The loop \<^verbatim>\<open>for (const room of roomSnap.docs)\<close> of the delete-account flow.\<close>

fun cascade_rooms :: "env \<Rightarrow> string list \<Rightarrow> server \<Rightarrow> exn option \<times> server" where
  "cascade_rooms env [] s = (None, s)"
| "cascade_rooms env (roomId # rest) s =
     (case deleteMediaByMessages env (messages s roomId) s of
        (Some x, s1) \<Rightarrow> (Some x, s1)
      | (None, s1) \<Rightarrow>
          cascade_rooms env rest
            (console_log (LogRoomDeleted roomId) (recursiveDelete roomId (console_log LogMediaDone s1))))"

text \<open>
  The body of the \<^verbatim>\<open>try\<close> of the delete-account flow. The handler of the avatar's
  \<^verbatim>\<open>try\<close> binds \<^verbatim>\<open>error\<close> and reads \<^verbatim>\<open>err.message\<close>; no \<^verbatim>\<open>err\<close> is in scope there, so
  evaluating the arguments of \<^verbatim>\<open>console.error\<close> throws out of the handler: a TypeError
  from the template literal of the first argument when the identifier does not convert,
  a ReferenceError from the second otherwise.
\<close>

definition delete_account_try :: "env \<Rightarrow> event \<Rightarrow> server \<Rightarrow> exn option \<times> server" where
  "delete_account_try env e s =
     (case (case auth_delete env (uid e) of
              AuthDeleted \<Rightarrow> (None, console_log LogAuthUserDeleted s)
            | AuthUserNotFound \<Rightarrow> (None, console_log LogAuthUserGone s)
            | AuthFailed \<Rightarrow> (Some AuthError, s)) of
        (Some x, s1) \<Rightarrow> (Some x, s1)
      | (None, s1) \<Rightarrow>
          (case doc_id (uid e) of
             Inl x \<Rightarrow> (Some x, s1)
           | Inr u \<Rightarrow>
               (case map_of (users s1) u of
                  None \<Rightarrow> (Some TypeError, s1)
                | Some profile \<Rightarrow>
                    (case (if truthy (field profile ''public_id'') then
                             (case destroy env (field profile ''public_id'') ''image'' s1 of
                                (None, s') \<Rightarrow>
                                  (None, console_log (LogDeletedMedia ''image'' (field profile ''public_id'')) s')
                              | (Some error, s') \<Rightarrow>
                                  (case interpolate (field profile ''public_id'') of
                                     Some x \<Rightarrow> (Some x, s')
                                   | None \<Rightarrow> (Some ReferenceError, s')))
                           else (None, s1)) of
                       (Some x, s2) \<Rightarrow> (Some x, s2)
                     | (None, s2) \<Rightarrow>
                         (let s3 = console_log LogProfileDeleted (s2\<lparr>users := AList.delete u (users s2)\<rparr>);
                              roomSnap = filter (\<lambda>room. field (snd room) ''createdBy'' = uid e) (rooms s3);
                              s4 = console_log (LogFoundRooms (length roomSnap)) s3
                          in (case cascade_rooms env (map fst roomSnap) s4 of
                                (Some x, s5) \<Rightarrow> (Some x, s5)
                              | (None, s5) \<Rightarrow>
                                  (None, sendRoomList (ws_send [(''type'', JStr ''delete-success'')] s5))))))))"

definition delete_account :: "env \<Rightarrow> event \<Rightarrow> server \<Rightarrow> completion \<times> server" where
  "delete_account env e s =
     (if \<not> truthy (uid e) then (Return, s)
      else
        (case delete_account_try env e s of
           (None, s') \<Rightarrow> (Normal, s')
         | (Some err, s') \<Rightarrow> (Normal, console_log (LogTotalDeleteFailed err) s')))"

text \<open>
  The body of the outer \<^verbatim>\<open>try\<close>: the first three actions return; the three delete blocks
  follow one another without an \<^verbatim>\<open>else\<close>.
\<close>

definition on_message_try :: "env \<Rightarrow> event \<Rightarrow> server \<Rightarrow> completion \<times> server" where
  "on_message_try env e s =
     (if action e = JStr ''create'' then create_room env e s
      else if action e = JStr ''join'' then join_room env e s
      else if action e = JStr ''message'' then send_message env e s
      else
        (case (if action e = JStr ''delete-message'' then delete_message env e s else (Normal, s)) of
           (Normal, s1) \<Rightarrow>
             (case (if action e = JStr ''delete-room'' then delete_room env e s1 else (Normal, s1)) of
                (Normal, s2) \<Rightarrow>
                  (if action e = JStr ''delete-account'' then delete_account env e s2 else (Normal, s2))
              | other \<Rightarrow> other)
         | other \<Rightarrow> other))"

text \<open>
  \<^verbatim>\<open>ws.on('message', ...)\<close> on a parsed envelope: whatever the body throws is caught and
  written to the console.
\<close>

definition on_message :: "env \<Rightarrow> event \<Rightarrow> server \<Rightarrow> server" where
  "on_message env e s =
     (case on_message_try env e s of
        (Throw x, s') \<Rightarrow> console_log (LogErrorHandlingMessage x) s'
      | (c, s') \<Rightarrow> s')"

section \<open>What the claims speak of\<close>

text \<open>
  The destroy call a message with a media identifier is due: its identifier, under the
  category "video" when the kind tag is "audio" and "image" otherwise.
\<close>

definition media_call :: "doc \<Rightarrow> jsval \<times> string" where
  "media_call m =
     (field m ''public_id'', if field m ''type'' = JStr ''audio'' then ''video'' else ''image'')"

definition media_calls :: "(string \<times> doc) list \<Rightarrow> (jsval \<times> string) list" where
  "media_calls ms =
     map (\<lambda>m. media_call (snd m)) (filter (\<lambda>m. truthy (field (snd m) ''public_id'')) ms)"

text \<open>
  The message at which the cascade stops: it has a media identifier, its destroy call
  is rejected, and the identifier does not convert to a string. The messages the cascade
  reaches: the list, up to the first such message.
\<close>

definition fatal :: "env \<Rightarrow> doc \<Rightarrow> bool" where
  "fatal env m =
     (truthy (field m ''public_id'') \<and>
      destroy_fails env (fst (media_call m)) (snd (media_call m)) \<and>
      interpolate (field m ''public_id'') \<noteq> None)"

fun attempted :: "env \<Rightarrow> (string \<times> doc) list \<Rightarrow> (string \<times> doc) list" where
  "attempted env [] = []"
| "attempted env (m # ms) = (if fatal env (snd m) then [m] else m # attempted env ms)"

definition stops :: "env \<Rightarrow> (string \<times> doc) list \<Rightarrow> bool" where
  "stops env ms = list_ex (\<lambda>m. fatal env (snd m)) ms"

text \<open>The console lines one message of the cascade leaves.\<close>

definition media_log :: "env \<Rightarrow> string \<times> doc \<Rightarrow> logline list" where
  "media_log env m =
     LogChecking (fst m) #
       (if truthy (field (snd m) ''public_id'') then
          (if destroy_fails env (fst (media_call (snd m))) (snd (media_call (snd m)))
           then [LogFailedToDelete (field (snd m) ''public_id'') MediaStoreError]
           else [LogDeletedMedia (snd (media_call (snd m))) (field (snd m) ''public_id'')])
        else [])"






section \<open>Example states\<close>

definition no_fields :: event where
  "no_fields =
     \<lparr>action = JUndefined, roomName = JUndefined, username = JUndefined, msg_text = JUndefined,
      replyTo = JUndefined, password = JUndefined, uid = JUndefined, public_id = JUndefined,
      msg_type = JUndefined, msgId = JUndefined\<rparr>"

text \<open>An environment where every collaborator answers, and one whose media store rejects.\<close>

definition quiet_env :: env where
  "quiet_env =
     \<lparr>date_now = 1700000000003, server_time = 30,
      hash_of = (\<lambda>p. ''$2b$10$'' @ p), hash_matches = (\<lambda>p h. h = ''$2b$10$'' @ p),
      destroy_fails = (\<lambda>pid rt. False), auth_delete = (\<lambda>u. AuthDeleted)\<rparr>"

definition failing_media_env :: env where
  "failing_media_env = quiet_env\<lparr>destroy_fails := (\<lambda>pid rt. True)\<rparr>"

definition empty_server :: server where
  "empty_server =
     \<lparr>rooms = [], messages = (\<lambda>r. []), users = [], destroyed = [], sent = [], console = []\<rparr>"

text \<open>The server after uid u1 has created the room lobby, through the handler.\<close>

definition lobby_created :: server where
  "lobby_created =
     on_message quiet_env
       (no_fields\<lparr>action := JStr ''create'', roomName := JStr ''lobby'', uid := JStr ''u1''\<rparr>)
       empty_server"

text \<open>
  A server with the room lobby of u1, three messages in it (a voice note of u1, an image
  of u2, a text of u2; stored out of timestamp order), a room vault with a password, and
  the profile of u1 with an avatar.
\<close>

definition voice_note :: doc where
  "voice_note =
     [(''id'', JStr ''1700000000002''), (''userId'', JStr ''u1''), (''text'', JStr ''listen''),
      (''type'', JStr ''audio''), (''public_id'', JStr ''chat_app_audio/v1''),
      (''roomName'', JStr ''lobby''), (''timestamp'', JTimestamp 20)]"

definition picture :: doc where
  "picture =
     [(''id'', JStr ''1700000000001''), (''userId'', JStr ''u2''), (''text'', JStr ''look''),
      (''type'', JStr ''image''), (''public_id'', JStr ''chat_app_images/i1''),
      (''roomName'', JStr ''lobby''), (''timestamp'', JTimestamp 10)]"

definition plain_text :: doc where
  "plain_text =
     [(''id'', JStr ''1700000000000''), (''userId'', JStr ''u2''), (''text'', JStr ''hi''),
      (''type'', JNull), (''public_id'', JNull),
      (''roomName'', JStr ''lobby''), (''timestamp'', JTimestamp 5)]"

definition busy_server :: server where
  "busy_server =
     \<lparr>rooms = [(''lobby'', [(''password'', JNull), (''createdBy'', JStr ''u1''),
                             (''createdAt'', JTimestamp 1)]),
               (''vault'', [(''password'', JStr ''$2b$10$secret''), (''createdBy'', JStr ''u2''),
                             (''createdAt'', JTimestamp 2)])],
      messages = (\<lambda>r. if r = ''lobby''
                       then [(''1700000000002'', voice_note), (''1700000000001'', picture),
                             (''1700000000000'', plain_text)]
                       else []),
      users = [(''u1'', [(''username'', JStr ''ann''), (''public_id'', JStr ''chat_app_avatar/a1'')])],
      destroyed = [], sent = [], console = []\<rparr>"

text \<open>
  A message whose media identifier is an object with a property \<^verbatim>\<open>toString\<close>, first in the
  room lobby, and a media store that rejects the destroy call for that identifier.
\<close>

definition odd_note :: doc where
  "odd_note =
     [(''id'', JStr ''1700000000004''), (''userId'', JStr ''u1''), (''text'', JStr ''oops''),
      (''type'', JStr ''image''), (''public_id'', JObj [(''toString'', JNum 1)]),
      (''roomName'', JStr ''lobby''), (''timestamp'', JTimestamp 25)]"

definition odd_server :: server where
  "odd_server =
     busy_server\<lparr>messages :=
       (\<lambda>r. if r = ''lobby''
            then [(''1700000000004'', odd_note), (''1700000000002'', voice_note)]
            else [])\<rparr>"

definition picky_env :: env where
  "picky_env = quiet_env\<lparr>destroy_fails := (\<lambda>pid rt. pid = JObj [(''toString'', JNum 1)])\<rparr>"

section \<open>Lemmas on the collaborators and the cascade\<close>

lemma strict_eq_str [simp]: "strict_eq v (JStr x) = (v = JStr x)"
  by (cases v) auto

lemma strict_eq_undefined [simp]: "strict_eq v JUndefined = (v = JUndefined)"
  by (cases v) auto

lemma split_path_plain: "CHR ''/'' \<notin> set n \<Longrightarrow> split_path n = [n]"
  by (induction n) auto

lemma double_slash_plain: "CHR ''/'' \<notin> set n \<Longrightarrow> \<not> double_slash n"
  by (induction n rule: double_slash.induct) auto

text \<open>A name without a slash is the document id itself.\<close>

lemma doc_id_plain: "n \<noteq> [] \<Longrightarrow> CHR ''/'' \<notin> set n \<Longrightarrow> doc_id (JStr n) = Inr n"
  by (simp add: doc_id_def segments_def split_path_plain double_slash_plain)

lemma doc_id_truthy: "doc_id v = Inr r \<Longrightarrow> truthy v"
  by (cases v) (auto simp: doc_id_def split: if_splits)

lemma interpolate_cases: "interpolate v = None \<or> interpolate v = Some TypeError"
  by (cases v) auto

lemma resourceType_call: "resourceType m = snd (media_call m)"
  by (simp add: resourceType_def media_call_def)

lemma delete_filter: "AList.delete r al = filter (\<lambda>room. fst room \<noteq> r) al"
  by (induction al) auto

lemma update_fresh: "k \<notin> fst ` set al \<Longrightarrow> AList.update k v al = al @ [(k, v)]"
  by (induction al) auto

lemma field_stored: "distinct (map fst kvs) \<Longrightarrow> field (stored kvs) k = field kvs k"
proof (induction kvs)
  case Nil
  show ?case by (simp add: stored_def)
next
  case (Cons kv kvs)
  then have IH: "field (stored kvs) k = field kvs k" by simp
  show ?case
  proof (cases "snd kv = JUndefined")
    case True
    have "map_of kvs (fst kv) = None" using Cons.prems by (simp add: map_of_eq_None_iff)
    with True IH show ?thesis
      by (cases kv) (auto simp: stored_def field_def)
  next
    case False
    with IH show ?thesis by (cases kv) (auto simp: stored_def field_def)
  qed
qed

text \<open>
  The loop of mediaDelete.js: it throws exactly when the list has a message at which it
  stops; it makes the calls of the messages it reaches; it touches nothing but the
  call record and the console.
\<close>

lemma deleteMedia_step:
  "deleteMediaByMessages env (m # ms) s =
     (if fatal env (snd m)
      then (Some TypeError,
            console_log (LogChecking (fst m)) s
              \<lparr>destroyed := destroyed s @ [media_call (snd m)]\<rparr>)
      else deleteMediaByMessages env ms
             (s\<lparr>destroyed := destroyed s @ media_calls [m],
                 console := console s @ media_log env m\<rparr>))"
  using interpolate_cases[of "field (snd m) ''public_id''"]
  by (auto simp add: Let_def destroy_def console_log_def media_calls_def media_log_def
      resourceType_call media_call_def fatal_def)

lemma deleteMedia_effect:
  "fst (deleteMediaByMessages env ms s) = (if stops env ms then Some TypeError else None) \<and>
   destroyed (snd (deleteMediaByMessages env ms s)) =
     destroyed s @ media_calls (attempted env ms) \<and>
   rooms (snd (deleteMediaByMessages env ms s)) = rooms s \<and>
   messages (snd (deleteMediaByMessages env ms s)) = messages s \<and>
   users (snd (deleteMediaByMessages env ms s)) = users s \<and>
   sent (snd (deleteMediaByMessages env ms s)) = sent s"
proof (induction ms arbitrary: s)
  case Nil
  show ?case by (simp add: stops_def media_calls_def)
next
  case (Cons m ms)
  show ?case
  proof (cases "fatal env (snd m)")
    case True
    then show ?thesis
      unfolding deleteMedia_step
      by (simp add: stops_def console_log_def media_calls_def fatal_def)
  next
    case False
    then show ?thesis
      unfolding deleteMedia_step
      using Cons.IH[of "s\<lparr>destroyed := destroyed s @ media_calls [m],
                           console := console s @ media_log env m\<rparr>"]
      by (simp add: stops_def media_calls_def)
  qed
qed


text \<open>On a list with no such message the loop ends normally, with a line for each message.\<close>

lemma deleteMedia_result:
  "\<not> stops env ms \<Longrightarrow>
   deleteMediaByMessages env ms s =
     (None, s\<lparr>destroyed := destroyed s @ media_calls ms,
              console := console s @ concat (map (media_log env) ms)\<rparr>)"
proof (induction ms arbitrary: s)
  case Nil
  show ?case by (simp add: media_calls_def)
next
  case (Cons m ms)
  then have "\<not> fatal env (snd m)" and "\<not> stops env ms"
    by (auto simp: stops_def)
  then show ?case
    unfolding deleteMedia_step using Cons.IH
    by (simp add: media_calls_def)
qed




text \<open>
  Unfolding the handler on a concrete event: the definitions of the handler and of
  the example states.
\<close>

lemmas handler_defs =
  on_message_def on_message_try_def create_room_def join_room_def send_message_def
  delete_message_def delete_room_def delete_account_def delete_account_try_def
  ws_send_def broadcast_def console_log_def sendRoomList_def room_entry_def destroy_def
  recursiveDelete_def doc_id_plain bcrypt_hash_def bcrypt_compare_def js_or_def stored_def
  field_def resourceType_def permission_error_def create_exists_error_def
  join_missing_error_def join_password_error_def newMsg_def Let_def

lemmas example_defs =
  no_fields_def quiet_env_def failing_media_env_def picky_env_def empty_server_def
  busy_server_def odd_server_def voice_note_def picture_def plain_text_def odd_note_def

lemma lobby_created_eq:
  "lobby_created =
     \<lparr>rooms = [(''lobby'', [(''password'', JNull), (''createdBy'', JStr ''u1''),
                             (''createdAt'', JTimestamp 30)])],
      messages = (\<lambda>r. []), users = [], destroyed = [],
      sent = [ToSender [(''type'', JStr ''create-success''), (''roomName'', JStr ''lobby'')],
              ToAll [(''type'', JStr ''rooms-updated''),
                     (''rooms'', JArr [JObj [(''name'', JStr ''lobby''), (''private'', JBool False),
                                            (''createdBy'', JStr ''u1'')]])]],
      console = []\<rparr>"
  by (simp add: lobby_created_def handler_defs example_defs)

section \<open>delete-room and the creator (C1)\<close>

text \<open>
  The document the create handler writes holds the uid under \<^verbatim>\<open>createdBy\<close> and has no
  field \<^verbatim>\<open>owner\<close>.
\<close>

lemma create_writes_no_owner:
  assumes "action e = JStr ''create''"
    and "doc_id (roomName e) = Inr r"
    and "map_of (rooms s) r = None"
    and "map_of (rooms (on_message env e s)) r = Some d"
  shows "field d ''owner'' = JUndefined \<and> field d ''createdBy'' = uid e"
proof -
  let ?h = "if truthy (password e) then bcrypt_hash env (password e) else Inr (password e)"
  note t = doc_id_truthy[OF assms(2)]
  show ?thesis
  proof (cases ?h)
    case (Inl x)
    with assms(1-3) t have "rooms (on_message env e s) = rooms s"
      by (simp add: on_message_def on_message_try_def create_room_def console_log_def)
    with assms(3,4) show ?thesis by simp
  next
    case (Inr h)
    let ?d = "[(''password'', js_or h JNull), (''createdBy'', uid e),
               (''createdAt'', JTimestamp (server_time env))]"
    from Inr assms(1-3) t
    have "rooms (on_message env e s) = AList.update r (stored ?d) (rooms s)"
      by (simp add: on_message_def on_message_try_def create_room_def
          Let_def sendRoomList_def ws_send_def broadcast_def)
    with assms(4) have "d = stored ?d"
      by (simp add: update_conv')
    then show ?thesis
      by (simp add: field_stored) (simp add: field_def)
  qed
qed

text \<open>
  What holds of delete-room in general: the handler compares the uid with the field
  \<^verbatim>\<open>owner\<close> of the room document. On a room that has no such field, every uid that is
  present is refused, the creator's too, and an envelope with no uid at all deletes the
  room (when the cascade over its messages does not stop).
\<close>

lemma delete_room_reads_owner:
  assumes "action e = JStr ''delete-room''"
    and "doc_id (roomName e) = Inr r"
    and "map_of (rooms s) r = Some d"
    and "field d ''owner'' = JUndefined"
  shows "(uid e \<noteq> JUndefined \<longrightarrow>
            on_message env e s = s\<lparr>sent := sent s @ [ToSender permission_error]\<rparr>) \<and>
         (uid e = JUndefined \<and> \<not> stops env (messages s r) \<longrightarrow>
            map_of (rooms (on_message env e s)) r = None \<and> messages (on_message env e s) r = [])"
  using assms
  by (auto simp add: on_message_def on_message_try_def delete_room_def ws_send_def
      deleteMedia_result sendRoomList_def broadcast_def delete_filter map_of_eq_None_iff)

text \<open>
  C1. Claim: a delete-room action whose uid equals the creator field of the room deletes
  the room's messages and the room and re-broadcasts the room list; any other uid is
  refused with a permission error and changes nothing. The code does otherwise: once u1
  has created the room lobby through the create handler, the document holds
  \<^verbatim>\<open>createdBy = u1\<close>; delete-room of lobby with uid u1 leaves the room in place and answers
  the sender with the permission error; delete-room of lobby with no uid deletes it.
\<close>

theorem creator_delete_room_refused:
  "rooms lobby_created =
     [(''lobby'', [(''password'', JNull), (''createdBy'', JStr ''u1''),
                   (''createdAt'', JTimestamp 30)])] \<and>
   on_message quiet_env
     (no_fields\<lparr>action := JStr ''delete-room'', roomName := JStr ''lobby'', uid := JStr ''u1''\<rparr>)
     lobby_created =
     lobby_created\<lparr>sent := sent lobby_created @
       [ToSender [(''type'', JStr ''error''),
                  (''message'', JStr ''Only the creator can delete this room.'')]]\<rparr> \<and>
   rooms (on_message quiet_env
            (no_fields\<lparr>action := JStr ''delete-room'', roomName := JStr ''lobby''\<rparr>)
            lobby_created) = []"
  by (simp add: lobby_created_eq) (simp add: handler_defs example_defs)

section \<open>delete-account when the avatar cannot be destroyed (C2)\<close>




text \<open>
  C2. Claim: when the destroy call for the avatar fails, the failure is logged and the
  flow goes on: the profile is deleted, the rooms created by the uid are cascaded, the
  sender gets delete-success and the room list is broadcast again. The code does
  otherwise: with the profile of u1 holding an avatar id and a media store that rejects,
  delete-account of u1 makes the one destroy call and stops there; the profile, the
  rooms and the messages stay, nothing is sent, and the console holds the outer
  handler's line with a ReferenceError, not the avatar's. With a media store that
  accepts, the same event deletes the profile and sends delete-success and the room list.
\<close>

theorem avatar_failure_aborts_delete_account:
  "on_message failing_media_env
     (no_fields\<lparr>action := JStr ''delete-account'', uid := JStr ''u1''\<rparr>) busy_server =
     busy_server\<lparr>destroyed := [(JStr ''chat_app_avatar/a1'', ''image'')],
                  console := [LogAuthUserDeleted, LogTotalDeleteFailed ReferenceError]\<rparr> \<and>
   users (on_message quiet_env
            (no_fields\<lparr>action := JStr ''delete-account'', uid := JStr ''u1''\<rparr>) busy_server) = [] \<and>
   sent (on_message quiet_env
           (no_fields\<lparr>action := JStr ''delete-account'', uid := JStr ''u1''\<rparr>) busy_server) =
     [ToSender [(''type'', JStr ''delete-success'')],
      ToAll [(''type'', JStr ''rooms-updated''),
             (''rooms'', JArr [JObj [(''name'', JStr ''vault''), (''private'', JBool True),
                                    (''createdBy'', JStr ''u2'')]])]]"
  by (simp add: handler_defs example_defs)

section \<open>create with a missing field (C3)\<close>

text \<open>
  The part that holds: when the room name is missing, or is one the store refuses as a
  path, create is silent.
\<close>

lemma create_without_room_name_silent:
  assumes "action e = JStr ''create''" and "doc_id (roomName e) = Inl InvalidDocumentPath"
  shows "rooms (on_message env e s) = rooms s \<and> sent (on_message env e s) = sent s"
  using assms
  by (simp add: on_message_def on_message_try_def create_room_def console_log_def)

text \<open>
  C3. Claim: a create event in which roomName or uid is missing writes no room and sends
  no reply. The code does otherwise when only the uid is missing (its guard returns
  only when both are missing): create of lobby with no uid on the empty server writes the
  room, without a creator, answers create-success and broadcasts the room list; on a
  server that has the room, the same event is answered with the create error.
\<close>

theorem create_without_uid_writes_room:
  "on_message quiet_env
     (no_fields\<lparr>action := JStr ''create'', roomName := JStr ''lobby''\<rparr>) empty_server =
     empty_server\<lparr>rooms := [(''lobby'', [(''password'', JNull), (''createdAt'', JTimestamp 30)])],
       sent := [ToSender [(''type'', JStr ''create-success''), (''roomName'', JStr ''lobby'')],
                ToAll [(''type'', JStr ''rooms-updated''),
                       (''rooms'', JArr [JObj [(''name'', JStr ''lobby''), (''private'', JBool False),
                                              (''createdBy'', JUndefined)]])]]\<rparr> \<and>
   sent (on_message quiet_env
           (no_fields\<lparr>action := JStr ''create'', roomName := JStr ''lobby''\<rparr>) lobby_created) =
     sent lobby_created @
     [ToSender [(''type'', JStr ''error''), (''create'', JBool True),
                (''message'', JStr ''Room already exist !'')]]"
  by (simp add: lobby_created_eq) (simp add: handler_defs example_defs)

section \<open>One destroy call for each message with media (C4)\<close>







section \<open>The shared cascade and an identifier that does not convert (C5)\<close>

text \<open>
  C5. Claim: \<open>deleteMediaByMessages\<close> never raises, whatever the message list: a failing
  destroy call is logged and the remaining messages are still processed. The code does
  so for every list in which no rejected identifier fails to convert to a string
  (\<open>deleteMedia_result\<close>), and otherwise not: the \<^verbatim>\<open>catch\<close> puts the identifier in a
  template literal. The message handler stores a \<^verbatim>\<open>public_id\<close> as the envelope carries it;
  with the object \<^verbatim>\<open>{"toString": 1}\<close> as the identifier of the first message of lobby and
  a media store that rejects, the cascade makes that one call, throws a TypeError, writes
  no failure line and never reaches the voice note behind it. On the three messages of
  the other server, with the same media store, it logs both failures and ends normally.
\<close>

theorem cascade_stops_at_unprintable_id:
  "field (newMsg quiet_env
            (no_fields\<lparr>action := JStr ''message'', roomName := JStr ''lobby'', uid := JStr ''u1'',
                        public_id := JObj [(''toString'', JNum 1)], msg_type := JStr ''image''\<rparr>))
         ''public_id'' = JObj [(''toString'', JNum 1)] \<and>
   messages odd_server ''lobby'' =
     [(''1700000000004'', odd_note), (''1700000000002'', voice_note)] \<and>
   deleteMediaByMessages failing_media_env (messages odd_server ''lobby'') odd_server =
     (Some TypeError,
      odd_server\<lparr>destroyed := [(JObj [(''toString'', JNum 1)], ''image'')],
                 console := [LogChecking ''1700000000004'']\<rparr>) \<and>
   deleteMediaByMessages failing_media_env (messages busy_server ''lobby'') busy_server =
     (None,
      busy_server\<lparr>destroyed := [(JStr ''chat_app_audio/v1'', ''video''),
                                 (JStr ''chat_app_images/i1'', ''image'')],
                   console := [LogChecking ''1700000000002'',
                               LogFailedToDelete (JStr ''chat_app_audio/v1'') MediaStoreError,
                               LogChecking ''1700000000001'',
                               LogFailedToDelete (JStr ''chat_app_images/i1'') MediaStoreError,
                               LogChecking ''1700000000000'']\<rparr>)"
  by (simp add: newMsg_def stored_def js_or_def field_def no_fields_def)
     (simp add: example_defs field_def destroy_def console_log_def resourceType_def)

section \<open>join answers with the ordered message list (C6)\<close>

lemma newMsg_timestamp: "field (newMsg env e) ''timestamp'' = JTimestamp (server_time env)"
  by (simp add: newMsg_def field_stored) (simp add: field_def)

lemma insort_key_snoc:
  "f y \<le> f x \<Longrightarrow> insort_key f y (zs @ [x]) = insort_key f y zs @ [x]"
  by (induction zs) auto

lemma sort_key_snoc:
  "\<forall>y\<in>set xs. f y \<le> f x \<Longrightarrow> sort_key f (xs @ [x]) = sort_key f xs @ [x]"
  by (induction xs) (auto simp: insort_key_snoc)

lemma orderBy_all:
  "\<forall>m\<in>set ms. field (snd m) ''timestamp'' \<noteq> JUndefined \<Longrightarrow>
   mset (orderBy_timestamp ms) = mset (map snd ms)"
  by (simp add: orderBy_timestamp_def)

lemma orderBy_sorted:
  "sorted (map (\<lambda>d. ts_key (field d ''timestamp'')) (orderBy_timestamp ms))"
  by (simp add: orderBy_timestamp_def)

lemma orderBy_snoc:
  assumes "k \<notin> fst ` set ms"
    and "\<forall>m\<in>set ms. ts_key (field (snd m) ''timestamp'') < t"
    and "field d ''timestamp'' = JTimestamp t"
  shows "orderBy_timestamp (AList.update k d ms) = orderBy_timestamp ms @ [d]"
proof -
  have "\<forall>y\<in>set (filter (\<lambda>d. field d ''timestamp'' \<noteq> JUndefined) (map snd ms)).
          ts_key (field y ''timestamp'') \<le> ts_key (field d ''timestamp'')"
    using assms(2,3) by (auto intro: less_imp_le)
  then show ?thesis
    using assms(1,3) by (simp add: orderBy_timestamp_def update_fresh sort_key_snoc)
qed

text \<open>
  C6. A join event on a room that exists, when the room has no password or the password
  of the envelope matches its hash, sends one envelope, to the sender only: join-success
  with the room name and the messages of the room. The list is in non-decreasing order of
  timestamp and, the messages of the room all having a timestamp (the message handler
  gives each one), it holds each message of the room once. The order is the order of
  sending: a message event on the room with a new identifier and a later server time
  puts its message at the end of the list a join returns.
\<close>

theorem join_success_ordered:
  assumes "action e = JStr ''join''"
    and "doc_id (roomName e) = Inr r"
    and "map_of (rooms s) r = Some d"
    and "\<not> truthy (field d ''password'') \<or>
         bcrypt_compare env (password e) (field d ''password'') = Inr True"
    and "\<forall>m\<in>set (messages s r). field (snd m) ''timestamp'' \<noteq> JUndefined"
  shows "on_message env e s =
           s\<lparr>sent := sent s @
              [ToSender [(''type'', JStr ''join-success''),
                         (''roomName'', roomName e),
                         (''messages'', JArr (map JObj (orderBy_timestamp (messages s r))))]]\<rparr> \<and>
         sorted (map (\<lambda>m. ts_key (field m ''timestamp'')) (orderBy_timestamp (messages s r))) \<and>
         mset (orderBy_timestamp (messages s r)) = mset (map snd (messages s r)) \<and>
         (\<forall>env' e'. action e' = JStr ''message'' \<and> roomName e' = roomName e \<and>
            toString (date_now env') \<notin> fst ` set (messages s r) \<and>
            (\<forall>m\<in>set (messages s r). ts_key (field (snd m) ''timestamp'') < server_time env') \<longrightarrow>
            orderBy_timestamp (messages (on_message env' e' s) r) =
              orderBy_timestamp (messages s r) @ [newMsg env' e'])"
proof -
  have a: "on_message env e s =
           s\<lparr>sent := sent s @
              [ToSender [(''type'', JStr ''join-success''),
                         (''roomName'', roomName e),
                         (''messages'', JArr (map JObj (orderBy_timestamp (messages s r))))]]\<rparr>"
    using assms(1-4)
    by (auto simp add: on_message_def on_message_try_def join_room_def ws_send_def)
  have d: "orderBy_timestamp (messages (on_message env' e' s) r) =
              orderBy_timestamp (messages s r) @ [newMsg env' e']"
    if "action e' = JStr ''message''" "roomName e' = roomName e"
       "toString (date_now env') \<notin> fst ` set (messages s r)"
       "\<forall>m\<in>set (messages s r). ts_key (field (snd m) ''timestamp'') < server_time env'"
    for env' e'
  proof -
    have "messages (on_message env' e' s) r =
            AList.update (toString (date_now env')) (newMsg env' e') (messages s r)"
      using that(1,2) assms(2,3)
      by (simp add: on_message_def on_message_try_def send_message_def broadcast_def Let_def)
    then show ?thesis
      using that(3,4) by (simp add: orderBy_snoc newMsg_timestamp)
  qed
  from a orderBy_sorted orderBy_all[OF assms(5)] d show ?thesis by blast
qed

text \<open>
  A join of lobby gets its three messages in the order of their timestamps (5, 10, 20),
  not in the order the store lists them; a message sent at server time 30 comes last.
\<close>

theorem join_success_ordered_witness:
  "map_of (rooms busy_server) ''lobby'' =
     Some [(''password'', JNull), (''createdBy'', JStr ''u1''), (''createdAt'', JTimestamp 1)] \<and>
   list_all (\<lambda>m. field (snd m) ''timestamp'' \<noteq> JUndefined) (messages busy_server ''lobby'') \<and>
   on_message quiet_env (no_fields\<lparr>action := JStr ''join'', roomName := JStr ''lobby''\<rparr>) busy_server =
     busy_server\<lparr>sent :=
       [ToSender [(''type'', JStr ''join-success''), (''roomName'', JStr ''lobby''),
                  (''messages'', JArr [JObj plain_text, JObj picture, JObj voice_note])]]\<rparr> \<and>
   toString (date_now quiet_env) = ''1700000000003'' \<and>
   orderBy_timestamp
     (messages
        (on_message quiet_env
           (no_fields\<lparr>action := JStr ''message'', roomName := JStr ''lobby'', uid := JStr ''u2'',
                       msg_text := JStr ''bye''\<rparr>) busy_server) ''lobby'') =
     [plain_text, picture, voice_note,
      [(''id'', JStr ''1700000000003''), (''userId'', JStr ''u2''), (''text'', JStr ''bye''),
       (''type'', JNull), (''public_id'', JNull), (''roomName'', JStr ''lobby''),
       (''timestamp'', JTimestamp 30)]]"
proof -
  let ?j = "no_fields\<lparr>action := JStr ''join'', roomName := JStr ''lobby''\<rparr>"
  let ?m = "no_fields\<lparr>action := JStr ''message'', roomName := JStr ''lobby'', uid := JStr ''u2'',
                       msg_text := JStr ''bye''\<rparr>"
  have h1: "action ?j = JStr ''join''" by (simp add: no_fields_def)
  have h2: "doc_id (roomName ?j) = Inr ''lobby''" by (simp add: no_fields_def doc_id_plain)
  have h3: "map_of (rooms busy_server) ''lobby'' =
     Some [(''password'', JNull), (''createdBy'', JStr ''u1''), (''createdAt'', JTimestamp 1)]"
    by (simp add: busy_server_def)
  have h4: "\<not> truthy (field [(''password'', JNull), (''createdBy'', JStr ''u1''),
                               (''createdAt'', JTimestamp 1)] ''password'') \<or>
            bcrypt_compare quiet_env (password ?j)
              (field [(''password'', JNull), (''createdBy'', JStr ''u1''),
                      (''createdAt'', JTimestamp 1)] ''password'') = Inr True"
    by (simp add: field_def)
  have h5: "\<forall>m\<in>set (messages busy_server ''lobby''). field (snd m) ''timestamp'' \<noteq> JUndefined"
    by (simp add: example_defs field_def)
  have ts: "toString (date_now quiet_env) = ''1700000000003''"
    by (simp add: quiet_env_def toString.simps digit_def)
  have o: "orderBy_timestamp (messages busy_server ''lobby'') = [plain_text, picture, voice_note]"
    by (simp add: orderBy_timestamp_def example_defs field_def)
  have n: "newMsg quiet_env ?m =
      [(''id'', JStr ''1700000000003''), (''userId'', JStr ''u2''), (''text'', JStr ''bye''),
       (''type'', JNull), (''public_id'', JNull), (''roomName'', JStr ''lobby''),
       (''timestamp'', JTimestamp 30)]"
    unfolding newMsg_def ts by (simp add: example_defs stored_def js_or_def)
  have k: "action ?m = JStr ''message'' \<and> roomName ?m = roomName ?j \<and>
            toString (date_now quiet_env) \<notin> fst ` set (messages busy_server ''lobby'') \<and>
            (\<forall>m\<in>set (messages busy_server ''lobby'').
               ts_key (field (snd m) ''timestamp'') < server_time quiet_env)"
    unfolding ts by (simp add: example_defs field_def)
  note t = join_success_ordered[OF h1 h2 h3 h4 h5]
  from t have "on_message quiet_env ?j busy_server =
           busy_server\<lparr>sent := sent busy_server @
              [ToSender [(''type'', JStr ''join-success''),
                         (''roomName'', roomName ?j),
                         (''messages'', JArr (map JObj (orderBy_timestamp (messages busy_server ''lobby''))))]]\<rparr>"
    by blast
  then have a: "on_message quiet_env ?j busy_server =
     busy_server\<lparr>sent :=
       [ToSender [(''type'', JStr ''join-success''), (''roomName'', JStr ''lobby''),
                  (''messages'', JArr [JObj plain_text, JObj picture, JObj voice_note])]]\<rparr>"
    unfolding o by (simp add: no_fields_def busy_server_def)
  from t k have "orderBy_timestamp (messages (on_message quiet_env ?m busy_server) ''lobby'') =
              orderBy_timestamp (messages busy_server ''lobby'') @ [newMsg quiet_env ?m]"
    by blast
  then have b: "orderBy_timestamp (messages (on_message quiet_env ?m busy_server) ''lobby'') =
     [plain_text, picture, voice_note,
      [(''id'', JStr ''1700000000003''), (''userId'', JStr ''u2''), (''text'', JStr ''bye''),
       (''type'', JNull), (''public_id'', JNull), (''roomName'', JStr ''lobby''),
       (''timestamp'', JTimestamp 30)]]"
    unfolding o n by simp
  have l: "list_all (\<lambda>m. field (snd m) ''timestamp'' \<noteq> JUndefined) (messages busy_server ''lobby'')"
    using h5 by (simp add: list_all_iff)
  from h3 l a ts b show ?thesis by blast
qed

section \<open>delete-message by the author, and for anyone else (C7)\<close>

text \<open>
  C7. Claim: on a message that exists, the message is deleted and message-deleted is
  sent to the sender when the uid is the author's, and for any other uid the message
  stays and nothing is sent. The second half holds, and so does the first unless the
  destroy call is rejected for an identifier that does not convert to a string
  (\<open>delete_message_outcome\<close>). In that case the code does otherwise: the \<^verbatim>\<open>catch\<close> around
  the destroy call throws from its template literal into the handler of the block. The
  author u1 of the message with the identifier \<^verbatim>\<open>{"toString": 1}\<close>, with a media store that
  rejects it, gets one destroy call and one console line; the message stays and nothing is
  sent. With a media store that accepts, the same event deletes the message and answers.
\<close>

theorem author_delete_blocked_by_media_failure:
  "map_of (messages odd_server ''lobby'') ''1700000000004'' = Some odd_note \<and>
   field odd_note ''userId'' = JStr ''u1'' \<and>
   on_message picky_env
     (no_fields\<lparr>action := JStr ''delete-message'', roomName := JStr ''lobby'',
                 msgId := JStr ''1700000000004'', uid := JStr ''u1''\<rparr>) odd_server =
     odd_server\<lparr>destroyed := [(JObj [(''toString'', JNum 1)], ''image'')],
                 console := [LogMessageDeleteFailed TypeError]\<rparr> \<and>
   map_of (messages
             (on_message quiet_env
                (no_fields\<lparr>action := JStr ''delete-message'', roomName := JStr ''lobby'',
                            msgId := JStr ''1700000000004'', uid := JStr ''u1''\<rparr>) odd_server)
             ''lobby'') ''1700000000004'' = None \<and>
   sent (on_message quiet_env
           (no_fields\<lparr>action := JStr ''delete-message'', roomName := JStr ''lobby'',
                       msgId := JStr ''1700000000004'', uid := JStr ''u1''\<rparr>) odd_server) =
     [ToSender [(''type'', JStr ''message-deleted''), (''id'', JStr ''1700000000004'')]]"
  by (simp add: handler_defs example_defs)

section \<open>create on a name that is taken (C8)\<close>

text \<open>
  C8. A create event that names a room of the store changes nothing of the store, so
  the creator and the password of the room stay as they are, and sends one envelope,
  to the sender only: the error with the tag \<^verbatim>\<open>create: true\<close>. The two errors of the join
  flow carry \<^verbatim>\<open>join: true\<close> and no \<^verbatim>\<open>create\<close>, and the create error no \<^verbatim>\<open>join\<close>.
\<close>

theorem create_existing_room_kept:
  assumes "action e = JStr ''create''"
    and "doc_id (roomName e) = Inr r"
    and "map_of (rooms s) r = Some d"
  shows "on_message env e s =
           s\<lparr>sent := sent s @
              [ToSender [(''type'', JStr ''error''), (''create'', JBool True),
                         (''message'', JStr ''Room already exist !'')]]\<rparr> \<and>
         map_of (rooms (on_message env e s)) r = Some d \<and>
         field create_exists_error ''create'' = JBool True \<and>
         field create_exists_error ''join'' = JUndefined \<and>
         field join_missing_error ''create'' = JUndefined \<and>
         field join_missing_error ''join'' = JBool True \<and>
         field join_password_error ''create'' = JUndefined \<and>
         field join_password_error ''join'' = JBool True"
  using assms doc_id_truthy[of "roomName e" r]
  by (simp add: on_message_def on_message_try_def create_room_def
      ws_send_def create_exists_error_def join_missing_error_def join_password_error_def field_def)

text \<open>u1 tries to create vault, the room of u2, with a password of its own.\<close>

theorem create_existing_room_kept_witness:
  "map_of (rooms busy_server) ''vault'' =
     Some [(''password'', JStr ''$2b$10$secret''), (''createdBy'', JStr ''u2''),
           (''createdAt'', JTimestamp 2)] \<and>
   on_message quiet_env
     (no_fields\<lparr>action := JStr ''create'', roomName := JStr ''vault'', uid := JStr ''u1'',
                 password := JStr ''mine''\<rparr>) busy_server =
     busy_server\<lparr>sent :=
       [ToSender [(''type'', JStr ''error''), (''create'', JBool True),
                  (''message'', JStr ''Room already exist !'')]]\<rparr>"
proof -
  have h: "map_of (rooms busy_server) ''vault'' =
     Some [(''password'', JStr ''$2b$10$secret''), (''createdBy'', JStr ''u2''),
           (''createdAt'', JTimestamp 2)]"
    by (simp add: busy_server_def)
  show ?thesis
    using h create_existing_room_kept[of
        "no_fields\<lparr>action := JStr ''create'', roomName := JStr ''vault'', uid := JStr ''u1'',
                    password := JStr ''mine''\<rparr>" "''vault''" busy_server _ quiet_env]
    by (simp add: no_fields_def doc_id_plain) (simp add: busy_server_def)
qed

section \<open>A room that is not there: join answers, message does not (C9)\<close>



section \<open>join with no password field on a room with a password (C10)\<close>

text \<open>
  C10. A join event on a room whose document has a password hash: when the envelope has
  no password field, \<open>bcrypt_compare\<close> throws, the outer handler writes the console line,
  and nothing is sent and nothing of the store changes; when the envelope has a password
  that does not match the hash, one envelope goes to the sender, the error of the join
  flow "Incorrect password.".
\<close>

theorem join_without_password_silent:
  assumes "action e = JStr ''join''"
    and "doc_id (roomName e) = Inr r"
    and "map_of (rooms s) r = Some d"
    and "truthy (field d ''password'')"
  shows "(password e = JUndefined \<longrightarrow>
            on_message env e s = s\<lparr>console := console s @ [LogErrorHandlingMessage BcryptError]\<rparr>) \<and>
         (\<forall>p h. password e = JStr p \<and> field d ''password'' = JStr h \<and> \<not> hash_matches env p h \<longrightarrow>
            on_message env e s =
              s\<lparr>sent := sent s @
                 [ToSender [(''type'', JStr ''error''), (''join'', JBool True),
                            (''message'', JStr ''Incorrect password.'')]]\<rparr>)"
  using assms
  by (auto simp add: on_message_def on_message_try_def join_room_def ws_send_def console_log_def
      bcrypt_compare_def join_password_error_def)

text \<open>The room vault has a password hash: a join with no password, and one with a wrong one.\<close>

theorem join_without_password_silent_witness:
  "map_of (rooms busy_server) ''vault'' =
     Some [(''password'', JStr ''$2b$10$secret''), (''createdBy'', JStr ''u2''),
           (''createdAt'', JTimestamp 2)] \<and>
   on_message quiet_env (no_fields\<lparr>action := JStr ''join'', roomName := JStr ''vault''\<rparr>) busy_server =
     busy_server\<lparr>console := [LogErrorHandlingMessage BcryptError]\<rparr> \<and>
   on_message quiet_env
     (no_fields\<lparr>action := JStr ''join'', roomName := JStr ''vault'', password := JStr ''guess''\<rparr>)
     busy_server =
     busy_server\<lparr>sent :=
       [ToSender [(''type'', JStr ''error''), (''join'', JBool True),
                  (''message'', JStr ''Incorrect password.'')]]\<rparr>"
proof -
  have h: "map_of (rooms busy_server) ''vault'' =
     Some [(''password'', JStr ''$2b$10$secret''), (''createdBy'', JStr ''u2''),
           (''createdAt'', JTimestamp 2)]"
    by (simp add: busy_server_def)
  have t: "truthy (field [(''password'', JStr ''$2b$10$secret''), (''createdBy'', JStr ''u2''),
                          (''createdAt'', JTimestamp 2)] ''password'')"
    by (simp add: field_def)
  have a: "on_message quiet_env (no_fields\<lparr>action := JStr ''join'', roomName := JStr ''vault''\<rparr>)
             busy_server =
           busy_server\<lparr>console := console busy_server @ [LogErrorHandlingMessage BcryptError]\<rparr>"
    using join_without_password_silent[of
        "no_fields\<lparr>action := JStr ''join'', roomName := JStr ''vault''\<rparr>" "''vault''"
        busy_server _ quiet_env, OF _ _ h t]
    by (simp add: no_fields_def doc_id_plain)
  have b: "on_message quiet_env
     (no_fields\<lparr>action := JStr ''join'', roomName := JStr ''vault'', password := JStr ''guess''\<rparr>)
     busy_server =
     busy_server\<lparr>sent := sent busy_server @
       [ToSender [(''type'', JStr ''error''), (''join'', JBool True),
                  (''message'', JStr ''Incorrect password.'')]]\<rparr>"
    using join_without_password_silent[of
        "no_fields\<lparr>action := JStr ''join'', roomName := JStr ''vault'', password := JStr ''guess''\<rparr>"
        "''vault''" busy_server _ quiet_env, OF _ _ h t]
    by (simp add: no_fields_def doc_id_plain quiet_env_def field_def)
  from h a b show ?thesis by (simp add: busy_server_def)
qed

section \<open>Every stored message has a timestamp\<close>

text \<open>
  The hypothesis of the join theorem on the messages of a room is an invariant of the
  handler, for the events whose names are plain document ids (an event that addresses a
  nested path is not followed here): an event adds at most the message it builds, which
  has a timestamp, and otherwise only removes messages.
\<close>

lemma set_update_subset: "set (AList.update k v al) \<subseteq> insert (k, v) (set al)"
  by (induction al) auto

lemma cascade_rooms_messages_subset:
  "set (messages (snd (cascade_rooms env rs s)) r) \<subseteq> set (messages s r)"
proof (induction rs arbitrary: s)
  case Nil
  show ?case by simp
next
  case (Cons x rs)
  note E = deleteMedia_effect[of env "messages s x" s]
  show ?case
  proof (cases "deleteMediaByMessages env (messages s x) s")
    case (Pair c s1)
    with E have m: "messages s1 = messages s" by simp
    show ?thesis
    proof (cases c)
      case None
      let ?s2 = "console_log (LogRoomDeleted x) (recursiveDelete x (console_log LogMediaDone s1))"
      have "set (messages ?s2 r) \<subseteq> set (messages s r)"
        by (simp add: console_log_def recursiveDelete_def m)
      with Cons.IH[of ?s2] Pair None show ?thesis by auto
    next
      case (Some y)
      with Pair m show ?thesis by simp
    qed
  qed
qed

lemma delete_account_try_messages_subset:
  "set (messages (snd (delete_account_try env e s)) r) \<subseteq> set (messages s r)"
proof -
  have c: "set (messages (snd (cascade_rooms env rs s')) r) \<subseteq> set (messages s r)"
    if "messages s' = messages s" for rs s'
    using cascade_rooms_messages_subset[of env rs s' r] that by simp
  have k: "set (messages (snd (case cascade_rooms env rs s' of
                                 (Some x, s5) \<Rightarrow> (Some x, s5)
                               | (None, s5) \<Rightarrow>
                                   (None, sendRoomList (ws_send [(''type'', JStr ''delete-success'')] s5)))) r)
             \<subseteq> set (messages s r)"
    if "messages s' = messages s" for rs s'
    using c[OF that, of rs]
    by (simp add: split_beta sendRoomList_def ws_send_def broadcast_def split: option.splits)
  show ?thesis
    unfolding delete_account_try_def Let_def
    by (simp add: k console_log_def destroy_def
        split: auth_result.splits sum.splits option.splits)
qed

lemma on_message_messages_subset:
  assumes "doc_id (roomName e) \<noteq> Inl NestedDocumentPath"
    and "doc_id (msgId e) \<noteq> Inl NestedDocumentPath"
    and "doc_id (uid e) \<noteq> Inl NestedDocumentPath"
  shows "set (messages (on_message env e s) r) \<subseteq>
     insert (toString (date_now env), newMsg env e) (set (messages s r))"
proof -
  have da: "set (messages (snd (delete_account env e s)) r) \<subseteq> set (messages s r)"
    using delete_account_try_messages_subset[of env e s r]
    by (auto simp add: delete_account_def split_beta console_log_def split: option.splits)
  have cr: "messages (snd (create_room env e s)) = messages s"
    by (simp add: create_room_def Let_def sendRoomList_def ws_send_def broadcast_def
        split: sum.splits option.splits)
  have jr: "messages (snd (join_room env e s)) = messages s"
    by (simp add: join_room_def ws_send_def split: sum.splits option.splits)
  have sm: "set (messages (snd (send_message env e s)) r) \<subseteq>
              insert (toString (date_now env), newMsg env e) (set (messages s r))"
    using set_update_subset[of "toString (date_now env)" "newMsg env e"]
    by (auto simp add: send_message_def Let_def broadcast_def split: sum.splits option.splits)
  have dm: "set (messages (snd (delete_message env e s)) r) \<subseteq> set (messages s r)"
    by (auto simp add: delete_message_def Let_def console_log_def ws_send_def destroy_def
        delete_filter split: sum.splits option.splits)
  have dr: "set (messages (snd (delete_room env e s)) r) \<subseteq> set (messages s r)"
    using deleteMedia_effect[of env _ s]
    by (auto simp add: delete_room_def Let_def console_log_def ws_send_def split_beta
        sendRoomList_def broadcast_def split: sum.splits option.splits)
  have dm1: "fst (delete_message env e s) = Normal"
    by (simp add: delete_message_def Let_def split: sum.splits option.splits prod.splits)
  have om: "messages (on_message env e s) = messages (snd (on_message_try env e s))"
    by (cases "on_message_try env e s"; cases "fst (on_message_try env e s)")
       (auto simp add: on_message_def console_log_def)
  show ?thesis
    unfolding om on_message_try_def
    using cr jr sm dm dr da dm1
    by (auto simp add: split_beta split: completion.splits)
qed

lemma on_message_keeps_timestamps:
  assumes "\<forall>r. \<forall>m\<in>set (messages s r). field (snd m) ''timestamp'' \<noteq> JUndefined"
    and "doc_id (roomName e) \<noteq> Inl NestedDocumentPath"
    and "doc_id (msgId e) \<noteq> Inl NestedDocumentPath"
    and "doc_id (uid e) \<noteq> Inl NestedDocumentPath"
  shows "\<forall>r. \<forall>m\<in>set (messages (on_message env e s) r). field (snd m) ''timestamp'' \<noteq> JUndefined"
  using assms(1) on_message_messages_subset[OF assms(2-4), of env s] newMsg_timestamp[of env e]
  by fastforce

end
